theory Spec2Isabelle
  imports Complex_Main "HOL-Library.Sublist" "HOL-Library.Log_Nat"
begin

section \<open>Python strings\<close>

text \<open>
  Source text, docstrings and identifiers are Python \<open>str\<close> values. They are modelled
  as HOL strings, one \<open>char\<close> per code point, which covers the code points below 256.
  The character tables below list the members of each class in that range.
\<close>

definition py_isspace :: "char \<Rightarrow> bool" where
  \<comment> \<open>\<open>str.isspace\<close> on one character, also the regular expression class \<open>\s\<close>.\<close>
  "py_isspace c =
     (let n = of_char c :: nat
      in (9 \<le> n \<and> n \<le> 13) \<or> (28 \<le> n \<and> n \<le> 32) \<or> n = 133 \<or> n = 160)"

definition py_isupper_char :: "char \<Rightarrow> bool" where
  "py_isupper_char c =
     (let n = of_char c :: nat
      in (65 \<le> n \<and> n \<le> 90) \<or> (192 \<le> n \<and> n \<le> 214) \<or> (216 \<le> n \<and> n \<le> 222))"

definition py_islower_char :: "char \<Rightarrow> bool" where
  "py_islower_char c =
     (let n = of_char c :: nat
      in (97 \<le> n \<and> n \<le> 122) \<or> n = 170 \<or> n = 181 \<or> n = 186
         \<or> (223 \<le> n \<and> n \<le> 246) \<or> (248 \<le> n \<and> n \<le> 255))"

definition py_isword :: "char \<Rightarrow> bool" where
  \<comment> \<open>the regular expression class \<open>\w\<close>: alphanumeric characters and the underscore.\<close>
  "py_isword c =
     (let n = of_char c :: nat
      in py_isupper_char c \<or> py_islower_char c \<or> (48 \<le> n \<and> n \<le> 57) \<or> n = 95
         \<or> n = 178 \<or> n = 179 \<or> n = 185 \<or> (188 \<le> n \<and> n \<le> 190))"

definition py_isupper :: "string \<Rightarrow> bool" where
  \<comment> \<open>\<open>str.isupper\<close>: no lower-case character and at least one upper-case character.\<close>
  "py_isupper s = (list_ex py_isupper_char s \<and> \<not> list_ex py_islower_char s)"

definition lower_char :: "char \<Rightarrow> char" where
  \<comment> \<open>lower-casing as far as it can produce an ASCII letter: only \<open>A\<close>..\<open>Z\<close> change.\<close>
  "lower_char c =
     (let n = of_char c :: nat in if 65 \<le> n \<and> n \<le> 90 then char_of (n + 32) else c)"

definition py_lower :: "string \<Rightarrow> string" where
  "py_lower s = map lower_char s"

definition py_strip :: "string \<Rightarrow> string" where
  \<comment> \<open>\<open>str.strip()\<close>: leading and trailing whitespace removed.\<close>
  "py_strip s = rev (dropWhile py_isspace (rev (dropWhile py_isspace s)))"

definition startswith :: "string \<Rightarrow> string \<Rightarrow> bool" where
  "startswith s p = prefix p s"

fun replace_skip :: "string \<Rightarrow> string \<Rightarrow> nat \<Rightarrow> string \<Rightarrow> string" where
  "replace_skip old new k [] = []"
| "replace_skip old new (Suc k) (c # cs) = replace_skip old new k cs"
| "replace_skip old new 0 (c # cs) =
     (if prefix old (c # cs) then new @ replace_skip old new (length old - 1) cs
      else c # replace_skip old new 0 cs)"

definition py_replace :: "string \<Rightarrow> string \<Rightarrow> string \<Rightarrow> string" where
  \<comment> \<open>\<open>s.replace(old, new)\<close> for a non-empty \<open>old\<close>: the occurrences are replaced from
      left to right without overlap. The source only calls it with \<open>".py"\<close> and \<open>"/"\<close>.\<close>
  "py_replace s old new = replace_skip old new 0 s"

fun join_str :: "string \<Rightarrow> string list \<Rightarrow> string" where
  "join_str sep [] = []"
| "join_str sep [x] = x"
| "join_str sep (x # y # ys) = x @ sep @ join_str sep (y # ys)"

section \<open>Regular expressions\<close>

text \<open>
  The fragment of Python's \<open>re\<close> that the patterns of \<open>validate_docstrings.py\<close> use:
  literal characters, the classes \<open>\s\<close> and \<open>\w\<close> under \<open>*\<close> and \<open>+\<close>, sequence,
  alternation, \<open>?\<close>, one capturing group and \<open>^\<close> under \<open>re.MULTILINE\<close>.
  Matching is by backtracking: \<open>ends\<close> lists every way a pattern can match at a
  position, in the order in which the backtracking matcher tries them (greedy repetition
  tries the longest run first, an alternation its left branch first), so the head of the
  list is the match that \<open>re\<close> reports. A match state holds whether the position is at
  the beginning of a line, the text not yet consumed, and the text of the group.
\<close>

datatype cls = Space | Word

datatype regex =
    Lit char
  | Star cls
  | Plus cls
  | Seq regex regex
  | Alt regex regex
  | Opt regex
  | Grp regex
  | Bol

type_synonym mstate = "bool \<times> string \<times> string option"

fun in_cls :: "cls \<Rightarrow> char \<Rightarrow> bool" where
  "in_cls Space c = py_isspace c"
| "in_cls Word c = py_isword c"

definition lit_eq :: "bool \<Rightarrow> char \<Rightarrow> char \<Rightarrow> bool" where
  \<comment> \<open>a pattern character against a text character; the flag is \<open>re.IGNORECASE\<close>.\<close>
  "lit_eq ic p c = (if ic then lower_char c = lower_char p else c = p)"

fun star_run :: "cls \<Rightarrow> bool \<Rightarrow> string \<Rightarrow> string option \<Rightarrow> mstate list" where
  "star_run cl b [] g = [(b, [], g)]"
| "star_run cl b (c # cs) g =
     (if in_cls cl c then star_run cl (c = CHR 0x0A) cs g else []) @ [(b, c # cs, g)]"

fun ends :: "bool \<Rightarrow> regex \<Rightarrow> mstate \<Rightarrow> mstate list" where
  "ends ic (Lit p) (b, s, g) =
     (case s of [] \<Rightarrow> [] | c # cs \<Rightarrow> if lit_eq ic p c then [(c = CHR 0x0A, cs, g)] else [])"
| "ends ic (Star cl) (b, s, g) = star_run cl b s g"
| "ends ic (Plus cl) (b, s, g) =
     (case s of [] \<Rightarrow> []
      | c # cs \<Rightarrow> if in_cls cl c then star_run cl (c = CHR 0x0A) cs g else [])"
| "ends ic (Seq r1 r2) st = concat (map (ends ic r2) (ends ic r1 st))"
| "ends ic (Alt r1 r2) st = ends ic r1 st @ ends ic r2 st"
| "ends ic (Opt r) st = ends ic r st @ [st]"
| "ends ic (Grp r) (b, s, g) =
     map (\<lambda>(b', s', g'). (b', s', Some (take (length s - length s') s))) (ends ic r (b, s, g))"
| "ends ic Bol (b, s, g) = (if b then [(b, s, g)] else [])"

definition match_at :: "bool \<Rightarrow> regex \<Rightarrow> bool \<Rightarrow> string \<Rightarrow> mstate option" where
  \<comment> \<open>the match that starts at this position, if there is one.\<close>
  "match_at ic r b s = (case ends ic r (b, s, None) of [] \<Rightarrow> None | e # _ \<Rightarrow> Some e)"

fun search_from :: "bool \<Rightarrow> regex \<Rightarrow> bool \<Rightarrow> string \<Rightarrow> bool" where
  "search_from ic r b [] = (match_at ic r b [] \<noteq> None)"
| "search_from ic r b (c # cs) =
     (if match_at ic r b (c # cs) \<noteq> None then True else search_from ic r (c = CHR 0x0A) cs)"

definition re_search :: "bool \<Rightarrow> regex \<Rightarrow> string \<Rightarrow> bool" where
  \<comment> \<open>\<open>bool(re.search(r, s))\<close>: the start positions are tried from left to right.\<close>
  "re_search ic r s = search_from ic r True s"

fun findall_from :: "bool \<Rightarrow> regex \<Rightarrow> bool \<Rightarrow> nat \<Rightarrow> string \<Rightarrow> string list" where
  "findall_from ic r b (Suc k) [] = []"
| "findall_from ic r b (Suc k) (c # cs) = findall_from ic r (c = CHR 0x0A) k cs"
| "findall_from ic r b 0 [] =
     (case match_at ic r b [] of None \<Rightarrow> []
      | Some (b', s', g) \<Rightarrow> [case g of None \<Rightarrow> [] | Some t \<Rightarrow> t])"
| "findall_from ic r b 0 (c # cs) =
     (case match_at ic r b (c # cs) of
        None \<Rightarrow> findall_from ic r (c = CHR 0x0A) 0 cs
      | Some (b', s', g) \<Rightarrow>
          (case g of None \<Rightarrow> [] | Some t \<Rightarrow> t)
            # findall_from ic r (c = CHR 0x0A) (length cs - length s') cs)"

definition re_findall :: "bool \<Rightarrow> regex \<Rightarrow> string \<Rightarrow> string list" where
  \<comment> \<open>\<open>re.findall(r, s)\<close> for a pattern with one group: the text of the group in every
      match, the matches found from left to right without overlap. After a match the
      scan resumes where the match ended (the counter skips the characters it consumed).\<close>
  "re_findall ic r s = findall_from ic r True 0 s"

fun lits :: "string \<Rightarrow> regex \<Rightarrow> regex" where
  \<comment> \<open>literal text followed by a pattern.\<close>
  "lits [] r = r"
| "lits (c # cs) r = Seq (Lit c) (lits cs r)"

section \<open>The syntax tree\<close>

text \<open>
  \<open>ast.parse\<close> belongs to Python's standard library; the model takes it as a parameter
  that returns either the message of the \<open>SyntaxError\<close> it raises or the body of the
  \<open>ast.Module\<close> it builds. A node keeps the fields the two scripts read.
  \<open>AsyncFunctionDef\<close> is a node class of its own in \<open>ast\<close>, not a subclass of
  \<open>FunctionDef\<close>. \<open>OtherNode\<close> stands for every other node that can hold statements
  (\<open>if\<close>, \<open>for\<close>, \<open>try\<close>, an exception handler and so on), its children in the
  order of \<open>ast.iter_child_nodes\<close>. Expressions hold no statements, so they are kept
  only where the scripts look at them: the targets and the value of an assignment.
  The docstring field is what \<open>ast.get_docstring\<close> returns for the node, the
  \<open>returns\<close> field whether the node has a return annotation, the \<open>args\<close> field the
  names in \<open>node.args.args\<close>.
\<close>

datatype expr =
    Name string
  | Str string
  | ListE "expr list"
  | TupleE "expr list"
  | OtherExpr

datatype node =
    ClassDef string nat "node list"
  | FunctionDef string "string list" bool "string option" nat "node list"
  | AsyncFunctionDef string "string list" bool "string option" nat "node list"
  | Assign "expr list" expr nat
  | OtherNode nat "node list"

type_synonym parser = "string \<Rightarrow> string \<Rightarrow> string + node list"

fun lineno :: "node \<Rightarrow> nat" where
  "lineno (ClassDef name l body) = l"
| "lineno (FunctionDef name args returns doc l body) = l"
| "lineno (AsyncFunctionDef name args returns doc l body) = l"
| "lineno (Assign targets v l) = l"
| "lineno (OtherNode l body) = l"

fun child_nodes :: "node \<Rightarrow> node list" where
  "child_nodes (ClassDef name l body) = body"
| "child_nodes (FunctionDef name args returns doc l body) = body"
| "child_nodes (AsyncFunctionDef name args returns doc l body) = body"
| "child_nodes (Assign targets v l) = []"
| "child_nodes (OtherNode l body) = body"

function walk_queue :: "node list \<Rightarrow> node list" where
  "walk_queue [] = []"
| "walk_queue (n # todo) = n # walk_queue (todo @ child_nodes n)"
  by pat_completeness auto
termination
proof (relation "measure (\<lambda>q. size_list size q)")
  show "wf (measure (\<lambda>q. size_list size q))" by simp
next
  fix n :: node and todo :: "node list"
  have "size_list size (child_nodes n) < Suc (size n)"
    by (cases n) simp_all
  then show "(todo @ child_nodes n, n # todo) \<in> measure (\<lambda>q. size_list size q)"
    by simp
qed

definition walk :: "node list \<Rightarrow> node list" where
  \<comment> \<open>\<open>ast.walk(tree)\<close> below the module node: breadth first, a queue of nodes to
      visit, the children of a visited node appended to it.\<close>
  "walk body = walk_queue body"

section \<open>extract\_api.py\<close>

record symbol =
  sym_name :: string
  sym_type :: string
  signature :: "string option"
  module :: string
  line :: nat

fun str_elts :: "expr list \<Rightarrow> string list" where
  "str_elts [] = []"
| "str_elts (Str s # es) = s # str_elts es"
| "str_elts (e # es) = str_elts es"

fun all_exports_targets :: "expr \<Rightarrow> expr list \<Rightarrow> string list option \<Rightarrow> string list option" where
  "all_exports_targets v [] acc = acc"
| "all_exports_targets v (t # ts) acc =
     all_exports_targets v ts
       (if t = Name ''__all__''
        then (case v of ListE es \<Rightarrow> Some (str_elts es)
              | TupleE es \<Rightarrow> Some (str_elts es)
              | _ \<Rightarrow> acc)
        else acc)"

fun find_all_exports :: "node list \<Rightarrow> string list option \<Rightarrow> string list option" where
  "find_all_exports [] acc = acc"
| "find_all_exports (Assign targets v l # ns) acc =
     find_all_exports ns (all_exports_targets v targets acc)"
| "find_all_exports (n # ns) acc = find_all_exports ns acc"

fun assign_targets :: "expr list \<Rightarrow> (string \<times> string) option \<Rightarrow> (string \<times> string) option" where
  \<comment> \<open>the loop over the targets of a top-level assignment: every \<open>Name\<close> target
      overwrites \<open>name\<close> and \<open>symbol_type\<close>.\<close>
  "assign_targets [] acc = acc"
| "assign_targets (Name x # ts) acc =
     assign_targets ts (Some (x, if py_isupper x then ''constant'' else ''variable''))"
| "assign_targets (t # ts) acc = assign_targets ts acc"

fun classify :: "node \<Rightarrow> (string \<times> string \<times> string option) option" where
  \<comment> \<open>\<open>name\<close>, \<open>symbol_type\<close> and \<open>signature\<close> after the \<open>isinstance\<close> chain;
      \<open>None\<close> when \<open>name\<close> is still \<open>None\<close>.\<close>
  "classify (ClassDef name l body) = Some (name, ''class'', Some (''class '' @ name))"
| "classify (FunctionDef name args returns doc l body) =
     Some (name, ''function'', Some (''def '' @ name @ ''('' @ join_str '', '' args @ '')''))"
| "classify (Assign targets v l) =
     (case assign_targets targets None of
        None \<Rightarrow> None
      | Some (name, ty) \<Rightarrow> Some (name, ty, None))"
| "classify n = None"

definition symbols_of :: "string list option \<Rightarrow> string \<Rightarrow> node \<Rightarrow> symbol list" where
  \<comment> \<open>one round of the loop over \<open>tree.body\<close>: what it appends to \<open>symbols\<close>.\<close>
  "symbols_of all_exports module_name n =
     (case classify n of
        None \<Rightarrow> []
      | Some (name, ty, sig) \<Rightarrow>
          if name \<noteq> [] \<and> \<not> startswith name ''_''
          then (if (case all_exports of None \<Rightarrow> True | Some names \<Rightarrow> name \<in> set names)
                then [\<lparr>sym_name = name, sym_type = ty, signature = sig,
                       module = module_name, line = lineno n\<rparr>]
                else [])
          else [])"

fun extract_body :: "string list option \<Rightarrow> string \<Rightarrow> node list \<Rightarrow> symbol list" where
  "extract_body all_exports module_name [] = []"
| "extract_body all_exports module_name (n # ns) =
     symbols_of all_exports module_name n @ extract_body all_exports module_name ns"

definition extract_public_api :: "parser \<Rightarrow> string \<Rightarrow> string \<Rightarrow> symbol list" where
  "extract_public_api parse content filepath =
     (case parse content filepath of
        Inl e \<Rightarrow> []
      | Inr body \<Rightarrow>
          extract_body (find_all_exports (walk body) None)
            (py_replace (py_replace filepath ''.py'' '''') ''/'' ''.'') body)"

section \<open>validate\_docstrings.py\<close>

text \<open>
  \<open>list(set(params))\<close> removes duplicates and lists the names in the iteration
  order of a Python set of strings. That order follows the hash values of the strings,
  which CPython salts afresh for every process unless \<open>PYTHONHASHSEED\<close> fixes the
  salt, so it is an input of the run: the model takes it as the parameter \<open>set_list\<close>,
  and \<open>set_order\<close> says what every run guarantees about it.
\<close>

type_synonym set_list = "string list \<Rightarrow> string list"

definition set_order :: "set_list \<Rightarrow> bool" where
  "set_order set_list = (\<forall>xs. distinct (set_list xs) \<and> set (set_list xs) = set xs)"

definition google_re :: regex where
  \<comment> \<open>\<open>(?:Args?|Parameters?):\s*\n\s+(\w+)\<close>\<close>
  "google_re =
     Seq (Alt (lits ''Arg'' (Opt (Lit CHR ''s''))) (lits ''Parameter'' (Opt (Lit CHR ''s''))))
       (Seq (Lit CHR '':'')
         (Seq (Star Space) (Seq (Lit (CHR 0x0A)) (Seq (Plus Space) (Grp (Plus Word))))))"

definition sphinx_re :: regex where
  \<comment> \<open>\<open>:param\s+(\w+):\<close>\<close>
  "sphinx_re = lits '':param'' (Seq (Plus Space) (Seq (Grp (Plus Word)) (Lit CHR '':'')))"

definition numpy_re :: regex where
  \<comment> \<open>\<open>^\s*(\w+)\s*:\<close>\<close>
  "numpy_re = Seq Bol (Seq (Star Space) (Seq (Grp (Plus Word)) (Seq (Star Space) (Lit CHR '':''))))"

definition return_re :: regex where
  \<comment> \<open>\<open>(?:Returns?|Yields?):\<close>\<close>
  "return_re =
     Seq (Alt (lits ''Return'' (Opt (Lit CHR ''s''))) (lits ''Yield'' (Opt (Lit CHR ''s''))))
       (Lit CHR '':'')"

definition parse_docstring_params :: "set_list \<Rightarrow> string option \<Rightarrow> string list" where
  "parse_docstring_params set_list docstring =
     (case docstring of
        None \<Rightarrow> []
      | Some d \<Rightarrow>
          if d = [] then []
          else set_list (re_findall False google_re d @ re_findall False sphinx_re d
                          @ re_findall False numpy_re d))"

definition has_return_doc :: "string option \<Rightarrow> bool" where
  "has_return_doc docstring =
     (case docstring of
        None \<Rightarrow> False
      | Some d \<Rightarrow> if d = [] then False else re_search True return_re d)"

record issue =
  issue_type :: string
  severity :: string
  description :: string
  issue_line :: nat

record validation =
  v_name :: string
  v_line :: nat
  v_has_docstring :: bool
  v_param_count :: nat
  v_documented_params :: "string list"
  v_actual_params :: "string list"
  v_missing_params :: "string list"
  v_extra_params :: "string list"
  v_has_return_doc :: bool
  v_has_return_annotation :: bool
  v_issues :: "issue list"
  v_valid :: bool

definition validate_function ::
  "set_list \<Rightarrow> string \<Rightarrow> string list \<Rightarrow> bool \<Rightarrow> string option \<Rightarrow> nat \<Rightarrow> validation" where
  \<comment> \<open>the body of the loop of \<open>validate_file\<close> for one \<open>FunctionDef\<close> node.\<close>
  "validate_function set_list name args returns docstring l =
     (let has_docstring = (docstring \<noteq> None);
          actual_params = filter (\<lambda>a. a \<noteq> ''self'' \<and> a \<noteq> ''cls'') args;
          documented_params =
            (if has_docstring then parse_docstring_params set_list docstring else []);
          missing_params = filter (\<lambda>p. p \<notin> set documented_params) actual_params;
          extra_params = filter (\<lambda>p. p \<notin> set actual_params) documented_params;
          has_return_annotation = returns;
          has_return_doc_flag = has_return_doc docstring;
          issues =
            (if \<not> has_docstring
             then [\<lparr>issue_type = ''missing'', severity = ''error'',
                     description = ''Function '' @ name @ '' has no docstring'',
                     issue_line = l\<rparr>]
             else
               (if missing_params \<noteq> []
                then [\<lparr>issue_type = ''incomplete'', severity = ''warning'',
                        description = ''Missing documentation for parameters: ''
                                        @ join_str '', '' missing_params,
                        issue_line = l\<rparr>]
                else [])
               @ (if extra_params \<noteq> []
                  then [\<lparr>issue_type = ''mismatch'', severity = ''warning'',
                          description = ''Documented parameters not in signature: ''
                                          @ join_str '', '' extra_params,
                          issue_line = l\<rparr>]
                  else [])
               @ (if has_return_annotation \<and> \<not> has_return_doc_flag
                  then [\<lparr>issue_type = ''incomplete'', severity = ''warning'',
                          description =
                            ''Function has return annotation but no return documentation'',
                          issue_line = l\<rparr>]
                  else []));
          valid = (length issues = 0)
      in \<lparr>v_name = name, v_line = l, v_has_docstring = has_docstring,
          v_param_count = length actual_params, v_documented_params = documented_params,
          v_actual_params = actual_params, v_missing_params = missing_params,
          v_extra_params = extra_params, v_has_return_doc = has_return_doc_flag,
          v_has_return_annotation = has_return_annotation, v_issues = issues,
          v_valid = valid\<rparr>)"

fun validate_nodes :: "set_list \<Rightarrow> node list \<Rightarrow> validation list" where
  \<comment> \<open>the loop over \<open>ast.walk(tree)\<close>: only \<open>FunctionDef\<close> nodes append a record.\<close>
  "validate_nodes set_list [] = []"
| "validate_nodes set_list (FunctionDef name args returns doc l body # ns) =
     validate_function set_list name args returns doc l # validate_nodes set_list ns"
| "validate_nodes set_list (n # ns) = validate_nodes set_list ns"

record file_result =
  error :: "string option"
  validations :: "validation list"

definition validate_file :: "set_list \<Rightarrow> parser \<Rightarrow> string \<Rightarrow> string \<Rightarrow> file_result" where
  \<comment> \<open>\<open>content\<close> is what \<open>f.read()\<close> returns for the file at \<open>filepath\<close>.\<close>
  "validate_file set_list parse filepath content =
     (case parse content filepath of
        Inl e \<Rightarrow>
          \<lparr>error = Some (''Syntax error in '' @ filepath @ '': '' @ e), validations = []\<rparr>
      | Inr body \<Rightarrow> \<lparr>error = None, validations = validate_nodes set_list (walk body)\<rparr>)"

text \<open>
  A run of a script: what it prints to standard output (\<open>None\<close> when it prints
  nothing; otherwise the value that \<open>json.dumps\<close> serialises), the message it prints
  to standard error, and its exit code.
\<close>

record 'a run =
  stdout :: "'a option"
  stderr :: "string option"
  exit_code :: int

definition validate_main :: "set_list \<Rightarrow> parser \<Rightarrow> string list \<Rightarrow> string \<Rightarrow> validation list run" where
  \<comment> \<open>the script body; \<open>content\<close> is the text of the file named by \<open>argv[1]\<close>.\<close>
  "validate_main set_list parse argv content =
     (if length argv < 2
      then \<lparr>stdout = None, stderr = Some ''Usage: validate_docstrings.py <filepath>'',
            exit_code = 1\<rparr>
      else
        (let result = validate_file set_list parse (argv ! 1) content
         in if error result \<noteq> None
            then \<lparr>stdout = None, stderr = error result, exit_code = 1\<rparr>
            else \<lparr>stdout = Some (validations result), stderr = None, exit_code = 0\<rparr>))"

definition extract_main :: "parser \<Rightarrow> string list \<Rightarrow> string \<Rightarrow> symbol list run" where
  \<comment> \<open>the script body of \<open>extract_api.py\<close>; \<open>content\<close> is standard input.\<close>
  "extract_main parse argv content =
     (if length argv < 2
      then \<lparr>stdout = None, stderr = Some ''Usage: extract_api.py <filepath>'', exit_code = 1\<rparr>
      else \<lparr>stdout = Some (extract_public_api parse content (argv ! 1)), stderr = None,
            exit_code = 0\<rparr>)"

section \<open>exit\_criteria\_checker.py\<close>

text \<open>
  A Python float is a finite double, an infinity or a NaN; a finite one is held as the
  real number it denotes. The values \<open>json.loads\<close> builds are those of \<open>json\<close>. The
  built-ins \<open>float(str)\<close> and \<open>int(str)\<close> and \<open>json.loads\<close> are parameters: each
  returns its result, or fails (\<open>None\<close> for the \<open>ValueError\<close> the callers catch,
  \<open>Inl\<close> with the text of the exception for \<open>json.loads\<close>).
\<close>

datatype pyfloat = Finite real | PosInf | NegInf | NaN

datatype json =
    JNull
  | JBool bool
  | JInt int
  | JFloat pyfloat
  | JStr string
  | JArr "json list"
  | JObj "(string \<times> json) list"

type_synonym float_parser = "string \<Rightarrow> pyfloat option"
type_synonym int_parser = "string \<Rightarrow> int option"
type_synonym json_parser = "string \<Rightarrow> string + json"

definition BRANCH_COVERAGE_THRESHOLD :: real where
  "BRANCH_COVERAGE_THRESHOLD = 70"

definition round_half_even :: "int \<Rightarrow> int" where
  \<comment> \<open>a non-negative integer rounded to 53 significant bits, ties to the even
      neighbour.\<close>
  "round_half_even m =
     (if m < 2 ^ 53 then m
      else (let e = nat (bitlen m - 53);
                q = m div 2 ^ e;
                r = m mod 2 ^ e;
                h = 2 ^ (e - 1)
            in (if r > h \<or> (r = h \<and> odd q) then q + 1 else q) * 2 ^ e))"

definition float_of_int :: "int \<Rightarrow> string + pyfloat" where
  \<comment> \<open>\<open>float(n)\<close> for an \<open>int\<close>: the nearest double, or \<open>OverflowError\<close>.\<close>
  "float_of_int n =
     (if \<bar>n\<bar> \<ge> 2 ^ 1024 - 2 ^ 970 then Inl ''int too large to convert to float''
      else Inr (Finite (of_int (sgn n * round_half_even \<bar>n\<bar>))))"

definition dict_get :: "(string \<times> json) list \<Rightarrow> string \<Rightarrow> json" where
  \<comment> \<open>\<open>payload.get(key)\<close>: \<open>None\<close> for a missing key.\<close>
  "dict_get d k = (case map_of d k of None \<Rightarrow> JNull | Some v \<Rightarrow> v)"

definition as_bool :: "json \<Rightarrow> bool option" where
  "as_bool v =
     (case v of
        JBool b \<Rightarrow> Some b
      | JStr s \<Rightarrow>
          (let lowered = py_lower (py_strip s)
           in if lowered \<in> {''true'', ''yes'', ''1'', ''pass'', ''passed''} then Some True
              else if lowered \<in> {''false'', ''no'', ''0'', ''fail'', ''failed''} then Some False
              else None)
      | _ \<Rightarrow> None)"

definition as_float :: "float_parser \<Rightarrow> json \<Rightarrow> string + pyfloat option" where
  "as_float py_float v =
     (case v of
        JBool b \<Rightarrow> Inr (Some (Finite (if b then 1 else 0)))
      | JInt n \<Rightarrow> (case float_of_int n of Inl e \<Rightarrow> Inl e | Inr x \<Rightarrow> Inr (Some x))
      | JFloat x \<Rightarrow> Inr (Some x)
      | JStr s \<Rightarrow> Inr (py_float (py_strip s))
      | _ \<Rightarrow> Inr None)"

definition as_int :: "int_parser \<Rightarrow> json \<Rightarrow> int option" where
  "as_int py_int v =
     (case v of
        JInt n \<Rightarrow> Some n
      | JFloat x \<Rightarrow>
          (case x of
             Finite y \<Rightarrow> if of_int \<lfloor>y\<rfloor> = y then Some \<lfloor>y\<rfloor> else None
           | _ \<Rightarrow> None)
      | JStr s \<Rightarrow> py_int (py_strip s)
      | _ \<Rightarrow> None)"

record criterion_result =
  met :: bool
  crit_value :: json
  threshold :: json
  reason :: string

record unmet_entry =
  u_key :: string
  u_reason :: string
  u_value :: json
  u_threshold :: json

record gate_result =
  ok :: bool
  decision :: string
  score :: int
  thresholds :: "(string \<times> json) list"
  inputs :: "(string \<times> json) list"
  criteria :: "(string \<times> criterion_result) list"
  unmet :: "unmet_entry list"
  summary :: string

definition py_round :: "real \<Rightarrow> int" where
  \<comment> \<open>\<open>round(x)\<close> with one argument: the nearest integer, ties to the even one.\<close>
  "py_round x =
     (let f = \<lfloor>x\<rfloor>; d = x - of_int f
      in if d < 1 / 2 then f else if d > 1 / 2 then f + 1 else if even f then f else f + 1)"

definition float_gt :: "pyfloat \<Rightarrow> real \<Rightarrow> bool" where
  \<comment> \<open>\<open>x > t\<close> for a float \<open>x\<close> and a finite \<open>t\<close>; every comparison with NaN is false.\<close>
  "float_gt x t = (case x of Finite y \<Rightarrow> y > t | PosInf \<Rightarrow> True | _ \<Rightarrow> False)"

definition float_le :: "pyfloat \<Rightarrow> real \<Rightarrow> bool" where
  "float_le x t = (case x of Finite y \<Rightarrow> y \<le> t | NegInf \<Rightarrow> True | _ \<Rightarrow> False)"

definition opt_json :: "('a \<Rightarrow> json) \<Rightarrow> 'a option \<Rightarrow> json" where
  "opt_json f v = (case v of None \<Rightarrow> JNull | Some x \<Rightarrow> f x)"

definition evaluate :: "float_parser \<Rightarrow> int_parser \<Rightarrow> (string \<times> json) list \<Rightarrow> string + gate_result" where
  "evaluate py_float py_int payload =
     (let tests_passed = as_bool (dict_get payload ''tests_passed'');
          type_checks_passed = as_bool (dict_get payload ''type_checks_passed'')
      in case as_float py_float (dict_get payload ''branch_coverage'') of
           Inl e \<Rightarrow> Inl e
         | Inr branch_coverage \<Rightarrow>
     (let critical_issues_count = as_int py_int (dict_get payload ''critical_issues_count'');
          tests_ok =
            \<lparr>met = (tests_passed = Some True),
             crit_value = opt_json JBool tests_passed,
             threshold = JBool True,
             reason = (if tests_passed \<noteq> Some True then ''tests_passed must be true''
                       else ''tests passed'')\<rparr>;
          coverage_ok =
            \<lparr>met = (case branch_coverage of None \<Rightarrow> False
                    | Some x \<Rightarrow> float_gt x BRANCH_COVERAGE_THRESHOLD),
             crit_value = opt_json JFloat branch_coverage,
             threshold = JStr ''> 70.0'',
             reason = (case branch_coverage of
                         None \<Rightarrow> ''branch_coverage must be provided''
                       | Some x \<Rightarrow>
                           if float_le x BRANCH_COVERAGE_THRESHOLD
                           then ''branch_coverage must be > 70.0''
                           else ''branch coverage above threshold'')\<rparr>;
          typecheck_ok =
            \<lparr>met = (type_checks_passed = Some True),
             crit_value = opt_json JBool type_checks_passed,
             threshold = JBool True,
             reason = (if type_checks_passed \<noteq> Some True
                       then ''type_checks_passed must be true''
                       else ''type checks passed'')\<rparr>;
          critical_ok =
            \<lparr>met = (critical_issues_count = Some 0),
             crit_value = opt_json JInt critical_issues_count,
             threshold = JInt 0,
             reason = (case critical_issues_count of
                         None \<Rightarrow> ''critical_issues_count must be provided''
                       | Some n \<Rightarrow>
                           if n = 0 then ''no critical issues''
                           else ''critical issues must be 0'')\<rparr>;
          criteria =
            [(''tests_passed'', tests_ok), (''branch_coverage'', coverage_ok),
             (''type_checks_passed'', typecheck_ok), (''critical_issues_count'', critical_ok)];
          unmet =
            map (\<lambda>(key, result).
                   \<lparr>u_key = key, u_reason = reason result, u_value = crit_value result,
                    u_threshold = threshold result\<rparr>)
              (filter (\<lambda>(key, result). \<not> met result) criteria);
          met_count = length (filter (\<lambda>r. met r) (map snd criteria));
          score = py_round ((real met_count / 4) * 100);
          decision = (if met_count = 4 then ''approve'' else ''iterate'');
          summary = (if decision = ''approve'' then ''Exit criteria met''
                     else ''Exit criteria NOT met'')
      in Inr \<lparr>ok = True, decision = decision, score = score,
              thresholds =
                [(''branch_coverage'', JStr ''> 70.0''), (''tests_passed'', JBool True),
                 (''type_checks_passed'', JBool True), (''critical_issues_count'', JInt 0)],
              inputs =
                [(''tests_passed'', opt_json JBool tests_passed),
                 (''branch_coverage'', opt_json JFloat branch_coverage),
                 (''type_checks_passed'', opt_json JBool type_checks_passed),
                 (''critical_issues_count'', opt_json JInt critical_issues_count)],
              criteria = criteria, unmet = unmet, summary = summary\<rparr>))"

datatype gate_output = Result gate_result | Failure string

definition main :: "json_parser \<Rightarrow> float_parser \<Rightarrow> int_parser \<Rightarrow> string \<Rightarrow> gate_output \<times> int" where
  \<comment> \<open>\<open>raw\<close> is standard input. The result is the object written to standard output
      (\<open>Failure e\<close> for \<open>{"ok": false, "error": e}\<close>) and the value \<open>main\<close> returns,
      which becomes the exit code.\<close>
  "main json_loads py_float py_int raw =
     (case (if py_strip raw \<noteq> [] then json_loads raw else Inr (JObj [])) of
        Inl e \<Rightarrow> (Failure e, 0)
      | Inr payload \<Rightarrow>
          (case payload of
             JObj d \<Rightarrow>
               (case evaluate py_float py_int d of
                  Inl e \<Rightarrow> (Failure e, 0)
                | Inr result \<Rightarrow> (Result result, 0))
           | _ \<Rightarrow> (Failure ''Input payload must be a JSON object'', 0)))"

section \<open>Auxiliary definitions\<close>

definition parsed :: "node list \<Rightarrow> parser" where
  \<comment> \<open>\<open>ast.parse\<close> on a text whose module body is known.\<close>
  "parsed body content filepath = Inr body"

definition unparseable :: "string \<Rightarrow> parser" where
  \<comment> \<open>\<open>ast.parse\<close> on a text it rejects with a \<open>SyntaxError\<close> of the given message.\<close>
  "unparseable e content filepath = Inl e"

definition is_async :: "node \<Rightarrow> bool" where
  "is_async n = (case n of AsyncFunctionDef name args returns doc l body \<Rightarrow> True | _ \<Rightarrow> False)"

definition met_count :: "gate_result \<Rightarrow> nat" where
  \<comment> \<open>the number of criteria of a result that are met.\<close>
  "met_count r = length (filter met (map snd (criteria r)))"

definition gate_keys :: "string list" where
  "gate_keys = [''tests_passed'', ''branch_coverage'', ''type_checks_passed'',
                ''critical_issues_count'']"

section \<open>Properties of docstring validation\<close>

lemma validate_nodes_valid:
  "r \<in> set (validate_nodes set_list ns) \<Longrightarrow> v_valid r = (v_issues r = [])"
  by (induction set_list ns rule: validate_nodes.induct)
     (auto simp: validate_function_def Let_def)

text \<open>
  C2. A function definition without a docstring gets exactly one issue, of type
  \<open>missing\<close> and severity \<open>error\<close>; no \<open>incomplete\<close> or \<open>mismatch\<close> issue comes
  with it, and its record is not valid.
\<close>

theorem no_docstring_one_missing_issue:
  "v_issues (validate_function set_list name args returns None l)
     = [\<lparr>issue_type = ''missing'', severity = ''error'',
          description = ''Function '' @ name @ '' has no docstring'', issue_line = l\<rparr>]
   \<and> v_valid (validate_function set_list name args returns None l) = False
   \<and> v_has_docstring (validate_function set_list name args returns None l) = False"
  by (simp add: validate_function_def Let_def)

text \<open>
  C6. In every record that docstring validation produces for a file, \<open>valid\<close> is true
  exactly when the list of issues is empty.
\<close>

theorem valid_iff_no_issues:
  "\<forall>r \<in> set (validations (validate_file set_list parse filepath content)).
     v_valid r = (v_issues r = [])"
  by (auto simp: validate_file_def validate_nodes_valid split: sum.splits)

theorem valid_iff_no_issues_witness:
  "validate_function remdups ''f'' [''x''] False (Some ''text'') 1
     \<in> set (validations (validate_file remdups
               (parsed [FunctionDef ''f'' [''x''] False (Some ''text'') 1 []]) ''a.py'' ''''))
   \<and> v_valid (validate_function remdups ''f'' [''x''] False (Some ''text'') 1)
       = (v_issues (validate_function remdups ''f'' [''x''] False (Some ''text'') 1) = [])"
  using valid_iff_no_issues
    [of remdups "parsed [FunctionDef ''f'' [''x''] False (Some ''text'') 1 []]" "''a.py''" "''''"]
  by (simp add: validate_file_def parsed_def walk_def)

section \<open>Properties of symbol extraction\<close>

text \<open>
  C1. With \<open>__all__ = ["_private"]\<close> and a top-level \<open>def _private()\<close>, the claim
  expects a record for \<open>_private\<close>. The test on the leading underscore comes first
  in the source and the allow-list is only consulted inside it, so the extraction of
  that file is empty.
\<close>

theorem allow_list_underscore_excluded:
  "extract_public_api
     (parsed [Assign [Name ''__all__''] (ListE [Str ''_private'']) 1,
              FunctionDef ''_private'' [] False None 2 []])
     content ''m.py'' = []"
  by (simp add: extract_public_api_def parsed_def walk_def symbols_of_def startswith_def)

text \<open>
  C5. For the top-level statement \<open>a = b = 1\<close> the claim expects one record per
  target. The loop over the targets only overwrites \<open>name\<close>, and the record is
  appended once, after the loop: the extraction holds a record for \<open>b\<close> alone.
\<close>

theorem chained_assignment_last_target_only:
  "extract_public_api (parsed [Assign [Name ''a'', Name ''b''] OtherExpr 1]) content ''m.py''
     = [\<lparr>sym_name = ''b'', sym_type = ''variable'', signature = None, module = ''m'', line = 1\<rparr>]"
  by (simp add: extract_public_api_def parsed_def walk_def symbols_of_def startswith_def
        py_isupper_def py_isupper_char_def py_islower_char_def py_replace_def)

lemma symbols_of_async: "is_async n \<Longrightarrow> symbols_of all_exports module_name n = []"
  by (cases n) (simp_all add: is_async_def symbols_of_def)

lemma extract_body_filter_async:
  "extract_body all_exports module_name body
     = extract_body all_exports module_name (filter (\<lambda>n. \<not> is_async n) body)"
  by (induction body) (simp_all add: symbols_of_async)

lemma validate_nodes_filter_async:
  "validate_nodes set_list ns = validate_nodes set_list (filter (\<lambda>n. \<not> is_async n) ns)"
  by (induction set_list ns rule: validate_nodes.induct) (simp_all add: is_async_def)

text \<open>
  C9. Async function definitions are invisible to both analyses. For a file that
  parses, symbol extraction returns what its loop returns on the top-level statements
  with every \<open>async def\<close> deleted, and docstring validation returns what its loop
  returns on the walked nodes with every \<open>async def\<close> deleted: no record of either
  kind comes from an \<open>AsyncFunctionDef\<close> node.
\<close>

theorem async_functions_invisible:
  assumes "parse content filepath = Inr body"
  shows "extract_public_api parse content filepath
           = extract_body (find_all_exports (walk body) None)
               (py_replace (py_replace filepath ''.py'' '''') ''/'' ''.'')
               (filter (\<lambda>n. \<not> is_async n) body)
         \<and> validations (validate_file set_list parse filepath content)
             = validate_nodes set_list (filter (\<lambda>n. \<not> is_async n) (walk body))
         \<and> error (validate_file set_list parse filepath content) = None"
  using assms extract_body_filter_async [of _ _ body]
    validate_nodes_filter_async [of set_list "walk body"]
  by (simp add: extract_public_api_def validate_file_def)

theorem async_functions_invisible_witness:
  "parsed [AsyncFunctionDef ''fetch'' [''url''] False None 1 []] '''' ''m.py''
     = Inr [AsyncFunctionDef ''fetch'' [''url''] False None 1 []]
   \<and> extract_public_api (parsed [AsyncFunctionDef ''fetch'' [''url''] False None 1 []])
         '''' ''m.py'' = []
   \<and> validations (validate_file remdups
         (parsed [AsyncFunctionDef ''fetch'' [''url''] False None 1 []]) ''m.py'' '''') = []"
  using async_functions_invisible
    [of "parsed [AsyncFunctionDef ''fetch'' [''url''] False None 1 []]" "''''" "''m.py''"
        "[AsyncFunctionDef ''fetch'' [''url''] False None 1 []]" remdups]
  by (simp add: parsed_def walk_def is_async_def)

section \<open>Syntax errors\<close>

text \<open>
  C8. When the input does not parse (\<open>ast.parse\<close> raises a \<open>SyntaxError\<close>), symbol
  extraction returns the empty list and its script prints it and exits with code 0;
  docstring validation returns the error, and its script prints the message to standard
  error, prints no JSON and exits with code 1.
\<close>

theorem syntax_error_handling:
  assumes "parse content filepath = Inl e"
  shows "extract_public_api parse content filepath = []
         \<and> extract_main parse (prog # filepath # rest) content
             = \<lparr>stdout = Some [], stderr = None, exit_code = 0\<rparr>
         \<and> validate_file set_list parse filepath content
             = \<lparr>error = Some (''Syntax error in '' @ filepath @ '': '' @ e), validations = []\<rparr>
         \<and> validate_main set_list parse (prog # filepath # rest) content
             = \<lparr>stdout = None, stderr = Some (''Syntax error in '' @ filepath @ '': '' @ e),
                exit_code = 1\<rparr>"
  using assms
  by (simp add: extract_public_api_def extract_main_def validate_file_def validate_main_def)

theorem syntax_error_handling_witness:
  "unparseable ''invalid syntax'' ''def f(:'' ''m.py'' = Inl ''invalid syntax''
   \<and> extract_public_api (unparseable ''invalid syntax'') ''def f(:'' ''m.py'' = []
   \<and> validate_main remdups (unparseable ''invalid syntax'')
         [''validate_docstrings.py'', ''m.py''] ''def f(:''
       = \<lparr>stdout = None, stderr = Some ''Syntax error in m.py: invalid syntax'',
          exit_code = 1\<rparr>"
  using syntax_error_handling
    [of "unparseable ''invalid syntax''" "''def f(:''" "''m.py''" "''invalid syntax''"
        "''validate_docstrings.py''" "[]" remdups]
  by (simp add: unparseable_def)

section \<open>Properties of the quality gate\<close>

lemma py_strip_blank: "\<forall>c \<in> set raw. py_isspace c \<Longrightarrow> py_strip raw = []"
proof -
  assume "\<forall>c \<in> set raw. py_isspace c"
  then have "dropWhile py_isspace raw = []" by (induction raw) simp_all
  then show ?thesis unfolding py_strip_def by (simp only: rev.simps dropWhile.simps)
qed

lemma py_round_quarters: "py_round (real n / 4 * 100) = 25 * int n"
proof -
  have "real n / 4 * 100 = of_int (25 * int n)" by simp
  then show ?thesis unfolding py_round_def by (simp only: floor_of_int Let_def) simp
qed

lemma evaluate_score:
  "evaluate py_float py_int payload = Inr r \<Longrightarrow> score r = py_round (real (met_count r) / 4 * 100)"
  by (auto simp: evaluate_def met_count_def Let_def split: sum.splits)

lemma evaluate_decision:
  "evaluate py_float py_int payload = Inr r \<Longrightarrow>
     decision r = (if met_count r = 4 then ''approve'' else ''iterate'')"
  by (auto simp: evaluate_def met_count_def Let_def split: sum.splits)

lemma evaluate_keys:
  "evaluate py_float py_int payload = Inr r \<Longrightarrow> map fst (criteria r) = gate_keys"
  by (auto simp: evaluate_def gate_keys_def Let_def split: sum.splits)

lemma met_count_all:
  "length (criteria r) = 4 \<Longrightarrow> (met_count r = 4) = list_all met (map snd (criteria r))"
  unfolding met_count_def
  by (metis filter_id_conv length_filter_less length_map list_all_iff nat_neq_iff)

lemma evaluate_coverage:
  "evaluate py_float py_int payload = Inr r \<Longrightarrow>
     \<exists>c. map_of (criteria r) ''branch_coverage'' = Some c
       \<and> met c = (\<exists>x. as_float py_float (dict_get payload ''branch_coverage'') = Inr (Some x)
                     \<and> float_gt x 70)"
  by (auto simp: evaluate_def Let_def BRANCH_COVERAGE_THRESHOLD_def float_gt_def
           split: sum.splits option.splits)

lemma evaluate_total:
  "as_float py_float (dict_get payload ''branch_coverage'') = Inr x \<Longrightarrow>
     \<exists>r. evaluate py_float py_int payload = Inr r"
  by (simp add: evaluate_def Let_def)

lemma evaluate_boundary_alone:
  assumes "as_float py_float (dict_get payload ''branch_coverage'') = Inr (Some (Finite 70))"
    and "map_of payload ''tests_passed'' = None"
    and "map_of payload ''type_checks_passed'' = None"
    and "map_of payload ''critical_issues_count'' = None"
    and "evaluate py_float py_int payload = Inr r"
  shows "met_count r = 0"
  using assms
  by (auto simp: evaluate_def met_count_def Let_def dict_get_def as_bool_def as_int_def
        float_gt_def BRANCH_COVERAGE_THRESHOLD_def split: sum.splits)

lemma evaluate_empty:
  "evaluate py_float py_int [] = Inr r \<Longrightarrow>
     ok r \<and> decision r = ''iterate'' \<and> score r = 0
     \<and> map fst (criteria r) = gate_keys
     \<and> map met (map snd (criteria r)) = [False, False, False, False]
     \<and> map u_key (unmet r) = gate_keys"
  by (auto simp: evaluate_def dict_get_def as_bool_def as_float_def as_int_def Let_def
        opt_json_def py_round_def gate_keys_def)

lemma evaluate_empty_ex: "\<exists>r. evaluate py_float py_int [] = Inr r"
  by (simp add: evaluate_def dict_get_def as_float_def Let_def)

text \<open>
  C7. The gate wants a branch coverage strictly above 70. When the coverage read from
  the payload is exactly 70, the evaluation returns a result whose \<open>branch_coverage\<close>
  criterion is unmet, and when the three other keys are absent from the payload the
  decision is \<open>iterate\<close> and the score 0. In every result the \<open>branch_coverage\<close>
  criterion is met exactly when the coverage is a float above 70, the score is the
  rounded percentage of the four criteria that are met (25 for each), and the decision
  is \<open>approve\<close> exactly when all four are met, \<open>iterate\<close> otherwise.
\<close>

theorem gate_threshold_score_decision:
  "(as_float py_float (dict_get payload ''branch_coverage'') = Inr (Some (Finite 70)) \<longrightarrow>
      (\<exists>r c. evaluate py_float py_int payload = Inr r
         \<and> map_of (criteria r) ''branch_coverage'' = Some c \<and> \<not> met c
         \<and> (map_of payload ''tests_passed'' = None
              \<and> map_of payload ''type_checks_passed'' = None
              \<and> map_of payload ''critical_issues_count'' = None
             \<longrightarrow> decision r = ''iterate'' \<and> score r = 0)))
   \<and> (\<forall>r. evaluate py_float py_int payload = Inr r \<longrightarrow>
         (\<exists>c. map_of (criteria r) ''branch_coverage'' = Some c
            \<and> met c = (\<exists>x. as_float py_float (dict_get payload ''branch_coverage'') = Inr (Some x)
                          \<and> float_gt x 70))
         \<and> map fst (criteria r) = gate_keys
         \<and> score r = py_round (real (met_count r) / 4 * 100)
         \<and> score r = 25 * int (met_count r)
         \<and> (decision r = ''approve'') = list_all met (map snd (criteria r))
         \<and> (decision r = ''approve'' \<or> decision r = ''iterate''))"
proof (intro conjI impI allI)
  assume h: "as_float py_float (dict_get payload ''branch_coverage'') = Inr (Some (Finite 70))"
  from evaluate_total [OF h] obtain r where r: "evaluate py_float py_int payload = Inr r" ..
  from evaluate_coverage [OF r] obtain c
    where cm: "map_of (criteria r) ''branch_coverage'' = Some c
      \<and> met c = (\<exists>x. as_float py_float (dict_get payload ''branch_coverage'') = Inr (Some x)
                          \<and> float_gt x 70)" ..
  from cm have c: "map_of (criteria r) ''branch_coverage'' = Some c" by (rule conjunct1)
  from cm have "met c = (\<exists>x. as_float py_float (dict_get payload ''branch_coverage'') = Inr (Some x)
                          \<and> float_gt x 70)" by (rule conjunct2)
  with h have nm: "\<not> met c" by (simp add: float_gt_def)
  have d: "map_of payload ''tests_passed'' = None \<and> map_of payload ''type_checks_passed'' = None
        \<and> map_of payload ''critical_issues_count'' = None
      \<longrightarrow> decision r = ''iterate'' \<and> score r = 0"
  proof (rule impI)
    assume "map_of payload ''tests_passed'' = None \<and> map_of payload ''type_checks_passed'' = None
        \<and> map_of payload ''critical_issues_count'' = None"
    then have "map_of payload ''tests_passed'' = None"
      and "map_of payload ''type_checks_passed'' = None"
      and "map_of payload ''critical_issues_count'' = None"
      by simp_all
    then have "met_count r = 0" by (rule evaluate_boundary_alone [OF h _ _ _ r])
    then show "decision r = ''iterate'' \<and> score r = 0"
      using evaluate_decision [OF r] evaluate_score [OF r] by (simp add: py_round_def)
  qed
  have x: "evaluate py_float py_int payload = Inr r
         \<and> map_of (criteria r) ''branch_coverage'' = Some c \<and> \<not> met c
         \<and> (map_of payload ''tests_passed'' = None
              \<and> map_of payload ''type_checks_passed'' = None
              \<and> map_of payload ''critical_issues_count'' = None
             \<longrightarrow> decision r = ''iterate'' \<and> score r = 0)"
    by (rule conjI [OF r conjI [OF c conjI [OF nm d]]])
  show "\<exists>r c. evaluate py_float py_int payload = Inr r
         \<and> map_of (criteria r) ''branch_coverage'' = Some c \<and> \<not> met c
         \<and> (map_of payload ''tests_passed'' = None
              \<and> map_of payload ''type_checks_passed'' = None
              \<and> map_of payload ''critical_issues_count'' = None
             \<longrightarrow> decision r = ''iterate'' \<and> score r = 0)"
    by (intro exI) (rule x)
next
  fix r assume r: "evaluate py_float py_int payload = Inr r"
  show "\<exists>c. map_of (criteria r) ''branch_coverage'' = Some c
            \<and> met c = (\<exists>x. as_float py_float (dict_get payload ''branch_coverage'') = Inr (Some x)
                          \<and> float_gt x 70)"
    by (rule evaluate_coverage [OF r])
  show k: "map fst (criteria r) = gate_keys" by (rule evaluate_keys [OF r])
  show "score r = py_round (real (met_count r) / 4 * 100)" by (rule evaluate_score [OF r])
  then show "score r = 25 * int (met_count r)" by (simp only: py_round_quarters)
  from k have "length (map fst (criteria r)) = 4" by (simp add: gate_keys_def)
  then have l: "length (criteria r) = 4" by simp
  show "(decision r = ''approve'') = list_all met (map snd (criteria r))"
    using evaluate_decision [OF r] met_count_all [OF l] by simp
  show "decision r = ''approve'' \<or> decision r = ''iterate''"
    using evaluate_decision [OF r] by simp
qed


theorem gate_threshold_score_decision_witness:
  "as_float (\<lambda>s. None) (dict_get [(''branch_coverage'', JInt 70)] ''branch_coverage'')
     = Inr (Some (Finite 70))
   \<and> (\<exists>r c. evaluate (\<lambda>s. None) (\<lambda>s. None) [(''branch_coverage'', JInt 70)] = Inr r
         \<and> map_of (criteria r) ''branch_coverage'' = Some c \<and> \<not> met c
         \<and> decision r = ''iterate'' \<and> score r = 0)"
proof -
  let ?p = "[(''branch_coverage'', JInt 70)]"
  let ?f = "\<lambda>s::string. None :: pyfloat option"
  let ?i = "\<lambda>s::string. None :: int option"
  have h: "as_float ?f (dict_get ?p ''branch_coverage'') = Inr (Some (Finite 70))"
    by (simp add: as_float_def dict_get_def float_of_int_def round_half_even_def)
  have a: "map_of ?p ''tests_passed'' = None \<and> map_of ?p ''type_checks_passed'' = None
      \<and> map_of ?p ''critical_issues_count'' = None"
    by simp
  have "as_float ?f (dict_get ?p ''branch_coverage'') = Inr (Some (Finite 70)) \<longrightarrow>
      (\<exists>r c. evaluate ?f ?i ?p = Inr r
         \<and> map_of (criteria r) ''branch_coverage'' = Some c \<and> \<not> met c
         \<and> (map_of ?p ''tests_passed'' = None \<and> map_of ?p ''type_checks_passed'' = None
              \<and> map_of ?p ''critical_issues_count'' = None
             \<longrightarrow> decision r = ''iterate'' \<and> score r = 0))"
    using gate_threshold_score_decision [of ?f ?p ?i] by (rule conjunct1)
  from this h have "\<exists>r c. evaluate ?f ?i ?p = Inr r
         \<and> map_of (criteria r) ''branch_coverage'' = Some c \<and> \<not> met c
         \<and> (map_of ?p ''tests_passed'' = None \<and> map_of ?p ''type_checks_passed'' = None
              \<and> map_of ?p ''critical_issues_count'' = None
             \<longrightarrow> decision r = ''iterate'' \<and> score r = 0)"
    by (rule mp)
  then obtain r where "\<exists>c. evaluate ?f ?i ?p = Inr r
         \<and> map_of (criteria r) ''branch_coverage'' = Some c \<and> \<not> met c
         \<and> (map_of ?p ''tests_passed'' = None \<and> map_of ?p ''type_checks_passed'' = None
              \<and> map_of ?p ''critical_issues_count'' = None
             \<longrightarrow> decision r = ''iterate'' \<and> score r = 0)" ..
  then obtain c where x: "evaluate ?f ?i ?p = Inr r
         \<and> map_of (criteria r) ''branch_coverage'' = Some c \<and> \<not> met c
         \<and> (map_of ?p ''tests_passed'' = None \<and> map_of ?p ''type_checks_passed'' = None
              \<and> map_of ?p ''critical_issues_count'' = None
             \<longrightarrow> decision r = ''iterate'' \<and> score r = 0)" ..
  from x a have y: "evaluate ?f ?i ?p = Inr r
         \<and> map_of (criteria r) ''branch_coverage'' = Some c \<and> \<not> met c
         \<and> decision r = ''iterate'' \<and> score r = 0"
    by simp
  have "\<exists>r c. evaluate ?f ?i ?p = Inr r
         \<and> map_of (criteria r) ''branch_coverage'' = Some c \<and> \<not> met c
         \<and> decision r = ''iterate'' \<and> score r = 0"
    by (intro exI) (rule y)
  with h show ?thesis by (rule conjI)
qed

text \<open>
  C10. Empty or whitespace-only standard input is taken as the empty JSON object:
  \<open>json.loads\<close> is not called, the result is well formed with \<open>ok\<close> true, the
  decision \<open>iterate\<close>, the score 0 and the four criteria unmet, and the exit code is 0.
\<close>

theorem blank_input_is_empty_object:
  assumes "\<forall>c \<in> set raw. py_isspace c"
  shows "\<exists>r. main json_loads py_float py_int raw = (Result r, 0)
           \<and> ok r \<and> decision r = ''iterate'' \<and> score r = 0
           \<and> map fst (criteria r) = gate_keys
           \<and> map met (map snd (criteria r)) = [False, False, False, False]
           \<and> map u_key (unmet r) = gate_keys"
proof -
  from assms have s: "py_strip raw = []" by (rule py_strip_blank)
  from evaluate_empty_ex obtain r where r: "evaluate py_float py_int [] = Inr r" ..
  have m: "main json_loads py_float py_int raw = (Result r, 0)"
    by (simp add: main_def s r)
  show ?thesis by (intro exI) (rule conjI [OF m evaluate_empty [OF r]])
qed

theorem blank_input_is_empty_object_witness:
  "py_isspace (CHR '' '') \<and> py_isspace (CHR 0x0A) \<and> py_isspace (CHR 0x09)
   \<and> (\<exists>r. main (\<lambda>s. Inl ''Expecting value'') (\<lambda>s. None) (\<lambda>s. None)
               [CHR '' '', CHR 0x0A, CHR 0x09] = (Result r, 0)
           \<and> ok r \<and> decision r = ''iterate'' \<and> score r = 0
           \<and> map fst (criteria r) = gate_keys
           \<and> map met (map snd (criteria r)) = [False, False, False, False]
           \<and> map u_key (unmet r) = gate_keys)"
proof -
  have s: "py_isspace (CHR '' '')" and n: "py_isspace (CHR 0x0A)" and t: "py_isspace (CHR 0x09)"
    by (simp_all add: py_isspace_def)
  then have h: "\<forall>c \<in> set [CHR '' '', CHR 0x0A, CHR 0x09]. py_isspace c"
    by simp
  show ?thesis
    by (rule conjI [OF s conjI [OF n conjI [OF t blank_input_is_empty_object [OF h]]]])
qed

end
